theory Spec2Isabelle
  imports Complex_Main "HOL-Library.Sublist" "HOL-Library.Char_ord"
begin

section \<open>Data model\<close>

text \<open>
  A decoded JSON value, as Go's \<open>encoding/json\<close> hands it over in an \<open>interface{}\<close>:
  \<open>nil\<close>, \<open>bool\<close>, \<open>float64\<close>, \<open>string\<close>, \<open>[]interface{}\<close> or
  \<open>map[string]interface{}\<close>. A JSON number is a finite \<open>float64\<close>; \<open>JNum x\<close> holds the
  rational number \<open>x\<close> that the \<open>float64\<close> denotes (the code only compares numbers and
  truncates them, it never computes with them).
\<close>

datatype jvalue =
    JNull
  | JBool bool
  | JNum rat
  | JStr string
  | JArr "jvalue list"
  | JObj "(string \<times> jvalue) list"

text \<open>
  A \<open>float64\<close> as the code computes with it: besides the finite values, the results
  \<open>+Inf\<close>, \<open>-Inf\<close> and \<open>NaN\<close> that \<open>strconv.ParseFloat\<close> and \<open>fmt.Sscan\<close> return for the
  strings \<open>inf\<close> and \<open>nan\<close>. The comparisons are those of IEEE 754: \<open>NaN\<close> is equal to
  nothing and is neither below nor above anything.
\<close>

datatype float64 = F64 rat | F64_PosInf | F64_NegInf | F64_NaN

fun float_eq :: "float64 \<Rightarrow> float64 \<Rightarrow> bool" where
  "float_eq (F64 x) (F64 y) = (x = y)"
| "float_eq F64_PosInf F64_PosInf = True"
| "float_eq F64_NegInf F64_NegInf = True"
| "float_eq a b = False"

fun float_lt :: "float64 \<Rightarrow> float64 \<Rightarrow> bool" where
  "float_lt (F64 x) (F64 y) = (x < y)"
| "float_lt F64_NegInf (F64 y) = True"
| "float_lt F64_NegInf F64_PosInf = True"
| "float_lt (F64 x) F64_PosInf = True"
| "float_lt a b = False"

text \<open>\<open>schematool.SchemaFieldDefinition\<close> and \<open>dynamictablefilter.TableSchema\<close>.\<close>

record SchemaFieldDefinition =
  Name :: string
  Type :: string

record TableSchema =
  EntityName :: string
  Fields :: "SchemaFieldDefinition list"
  FieldMap :: "string \<rightharpoonup> SchemaFieldDefinition"

text \<open>A record of a dynamic table: \<open>map[string]interface{}\<close>.\<close>

type_synonym row = "string \<rightharpoonup> jvalue"

text \<open>
  The error kinds of the two backends. The Go code returns \<open>fmt.Errorf\<close> messages; each
  message is mapped to the kind it reports, and a wrapped error (\<open>%w\<close>) keeps the kind of
  the error it wraps. \<open>RuntimePanic\<close> is not an error return: it stands for a Go run-time
  panic (a failed single-value type assertion), which aborts the call.
\<close>

datatype error =
    InvalidExpressionShape
  | MalformedNot
  | MalformedGroup
  | InvalidLogicalOperator
  | InvalidOperator
  | UnknownField string
  | UnsupportedOperator string string string
  | UnsupportedFieldType string string
  | InvalidOperandType
  | NilAdapter
  | InternalError
  | RuntimePanic

text \<open>
  The predicate tree of \<open>entgo.io/ent/dialect/sql\<close>, as the constructors the code calls.
  A \<open>PredicateFunc\<close> is a pointer to such a tree and may be \<open>nil\<close>: \<open>predicate option\<close>.
  Instants of \<open>time.Time\<close> are integers.
\<close>

datatype sqlval = SqlStr string | SqlInt int | SqlFloat float64 | SqlBool bool | SqlTime int

datatype predicate =
    sql_EQ string sqlval
  | sql_NEQ string sqlval
  | sql_GT string sqlval
  | sql_GTE string sqlval
  | sql_LT string sqlval
  | sql_LTE string sqlval
  | sql_ContainsFold string string
  | sql_HasPrefix string string
  | sql_HasSuffix string string
  | sql_And "predicate list"
  | sql_Or "predicate list"
  | sql_Not predicate

type_synonym PredicateFunc = "predicate option"

section \<open>The Go standard library, as far as the code uses it\<close>

text \<open>
  Number and time parsing, the formatting of numbers and composite values, and the case
  mapping and case folding of strings that are not pure ASCII are functions of the Go
  standard library whose code is not part of the repository: they are parameters. A parser
  returns \<open>None\<close> where the Go function returns an error.
\<close>

record golib =
  fmt_other :: "jvalue \<Rightarrow> string"
  ParseFloat :: "string \<Rightarrow> float64 option"
  time_Parse :: "string \<Rightarrow> string \<Rightarrow> int option"
  Sscan_int :: "string \<Rightarrow> int option"
  Sscan_float :: "string \<Rightarrow> float64 option"
  unicode_ToLower :: "string \<Rightarrow> string"
  unicode_EqualFold :: "string \<Rightarrow> string \<Rightarrow> bool"

text \<open>
  A Go string is its sequence of UTF-8 bytes. \<open>strings.ToLower\<close> and \<open>strings.EqualFold\<close>
  work byte by byte on a string of ASCII characters only: the letters \<open>A\<close> to \<open>Z\<close> go to
  \<open>a\<close> to \<open>z\<close>, every other character stays. On any other string they follow the Unicode
  tables, which the library parameter stands for.
\<close>

definition isASCII :: "string \<Rightarrow> bool" where
  "isASCII s = list_all (\<lambda>c. \<not> digit7 c) s"

definition lower_char :: "char \<Rightarrow> char" where
  "lower_char c =
     (case map_of (zip ''ABCDEFGHIJKLMNOPQRSTUVWXYZ'' ''abcdefghijklmnopqrstuvwxyz'') c of
        Some d \<Rightarrow> d
      | None \<Rightarrow> c)"

definition ToLower :: "golib \<Rightarrow> string \<Rightarrow> string" where
  "ToLower g s = (if isASCII s then map lower_char s else unicode_ToLower g s)"

definition EqualFold :: "golib \<Rightarrow> string \<Rightarrow> string \<Rightarrow> bool" where
  "EqualFold g s t =
     (if isASCII s \<and> isASCII t then map lower_char s = map lower_char t
      else unicode_EqualFold g s t)"

text \<open>\<open>strings.HasPrefix\<close>, \<open>strings.HasSuffix\<close>, \<open>strings.Contains\<close>.\<close>

definition HasPrefix :: "string \<Rightarrow> string \<Rightarrow> bool" where
  "HasPrefix s p = prefix p s"

definition HasSuffix :: "string \<Rightarrow> string \<Rightarrow> bool" where
  "HasSuffix s p = suffix p s"

fun Contains :: "string \<Rightarrow> string \<Rightarrow> bool" where
  "Contains [] sub = (sub = [])"
| "Contains (c # s) sub = (prefix sub (c # s) \<or> Contains s sub)"

text \<open>\<open>strconv.ParseBool\<close>.\<close>

definition ParseBool :: "string \<Rightarrow> bool option" where
  "ParseBool s =
     (if s \<in> {''1'', ''t'', ''T'', ''TRUE'', ''true'', ''True''} then Some True
      else if s \<in> {''0'', ''f'', ''F'', ''FALSE'', ''false'', ''False''} then Some False
      else None)"

text \<open>\<open>fmt.Sprintf("%v", v)\<close>: a string prints as itself.\<close>

definition Sprintf_v :: "golib \<Rightarrow> jvalue \<Rightarrow> string" where
  "Sprintf_v g v =
     (case v of
        JStr s \<Rightarrow> s
      | JBool b \<Rightarrow> (if b then ''true'' else ''false'')
      | JNull \<Rightarrow> ''<nil>''
      | _ \<Rightarrow> fmt_other g v)"

text \<open>
  The conversions \<open>int(f)\<close> and \<open>float64(i)\<close>. \<open>int\<close> has 64 bits: a finite value is
  truncated towards zero when the result fits, and any other conversion yields the smallest
  \<open>int\<close>, as the conversion instruction of amd64 does (the language leaves that result to
  the implementation). \<open>float64(i)\<close> is exact on the integers that occur, which are results
  of \<open>int(f)\<close>.
\<close>

definition go_int :: "float64 \<Rightarrow> int" where
  "go_int f =
     (case f of
        F64 x \<Rightarrow>
          (let t = (if 0 \<le> x then \<lfloor>x\<rfloor> else \<lceil>x\<rceil>)
           in if - (2 ^ 63) \<le> t \<and> t < 2 ^ 63 then t else - (2 ^ 63))
      | _ \<Rightarrow> - (2 ^ 63))"

definition float64_of_int :: "int \<Rightarrow> float64" where
  "float64_of_int i = F64 (of_int i)"

text \<open>Trying the layouts in order, the first successful parse wins.\<close>

fun parse_layouts :: "golib \<Rightarrow> string list \<Rightarrow> string \<Rightarrow> int option" where
  "parse_layouts g [] s = None"
| "parse_layouts g (layout # layouts) s =
     (case time_Parse g layout s of Some t \<Rightarrow> Some t | None \<Rightarrow> parse_layouts g layouts s)"

definition RFC3339 :: string where
  "RFC3339 = ''2006-01-02T15:04:05Z07:00''"

definition RFC3339Nano :: string where
  "RFC3339Nano = ''2006-01-02T15:04:05.999999999Z07:00''"

section \<open>The in-memory evaluator (package dynamictablefilter)\<close>

definition evaluateCondition :: "golib \<Rightarrow> jvalue \<Rightarrow> string \<Rightarrow> jvalue \<Rightarrow> string \<Rightarrow> bool" where
  "evaluateCondition g recordVal op0 filterVal fieldType =
     (let op = ToLower g op0 in
      if fieldType = ''string'' then
        (let sRecordVal = Sprintf_v g recordVal; sFilterVal = Sprintf_v g filterVal in
         if op = ''='' then EqualFold g sRecordVal sFilterVal
         else if op = ''<>'' then \<not> EqualFold g sRecordVal sFilterVal
         else if op = ''contains'' then Contains (ToLower g sRecordVal) (ToLower g sFilterVal)
         else if op = ''startswith'' then HasPrefix (ToLower g sRecordVal) (ToLower g sFilterVal)
         else if op = ''endswith'' then HasSuffix (ToLower g sRecordVal) (ToLower g sFilterVal)
         else if op = ''notcontains'' then \<not> Contains (ToLower g sRecordVal) (ToLower g sFilterVal)
         else False)
      else if fieldType = ''int'' then
        (case recordVal of
           JNum iRecordVal \<Rightarrow>
             (case ParseFloat g (Sprintf_v g filterVal) of
                None \<Rightarrow> False
              | Some iFilterVal \<Rightarrow>
                  if op = ''='' then go_int (F64 iRecordVal) = go_int iFilterVal
                  else if op = ''<>'' then go_int (F64 iRecordVal) \<noteq> go_int iFilterVal
                  else if op = ''>'' then go_int (F64 iRecordVal) > go_int iFilterVal
                  else if op = ''>='' then go_int (F64 iRecordVal) \<ge> go_int iFilterVal
                  else if op = ''<'' then go_int (F64 iRecordVal) < go_int iFilterVal
                  else if op = ''<='' then go_int (F64 iRecordVal) \<le> go_int iFilterVal
                  else False)
         | _ \<Rightarrow> False)
      else if fieldType = ''float64'' then
        (case recordVal of
           JNum fRecordVal \<Rightarrow>
             (case ParseFloat g (Sprintf_v g filterVal) of
                None \<Rightarrow> False
              | Some fFilterVal \<Rightarrow>
                  if op = ''='' then float_eq (F64 fRecordVal) fFilterVal
                  else if op = ''<>'' then \<not> float_eq (F64 fRecordVal) fFilterVal
                  else if op = ''>'' then float_lt fFilterVal (F64 fRecordVal)
                  else if op = ''>='' then
                    float_lt fFilterVal (F64 fRecordVal) \<or> float_eq (F64 fRecordVal) fFilterVal
                  else if op = ''<'' then float_lt (F64 fRecordVal) fFilterVal
                  else if op = ''<='' then
                    float_lt (F64 fRecordVal) fFilterVal \<or> float_eq (F64 fRecordVal) fFilterVal
                  else False)
         | _ \<Rightarrow> False)
      else if fieldType = ''bool'' then
        (case recordVal of
           JBool bRecordVal \<Rightarrow>
             (case ParseBool (ToLower g (Sprintf_v g filterVal)) of
                None \<Rightarrow> False
              | Some bFilterVal \<Rightarrow>
                  if op = ''='' then bRecordVal = bFilterVal
                  else if op = ''<>'' then bRecordVal \<noteq> bFilterVal
                  else False)
         | _ \<Rightarrow> False)
      else if fieldType = ''time.Time'' then
        (let sRecordVal = Sprintf_v g recordVal; sFilterVal = Sprintf_v g filterVal;
             layouts = [RFC3339Nano, ''2006-01-02T15:04:05Z'', ''2006-01-02T15:04:05'',
                        ''2006-01-02'']
         in case parse_layouts g layouts sRecordVal of
              None \<Rightarrow> False
            | Some tRecordVal \<Rightarrow>
                (case parse_layouts g layouts sFilterVal of
                   None \<Rightarrow> False
                 | Some tFilterVal \<Rightarrow>
                     if op = ''='' then tRecordVal = tFilterVal
                     else if op = ''<>'' then tRecordVal \<noteq> tFilterVal
                     else if op = ''>'' then tRecordVal > tFilterVal
                     else if op = ''>='' then tRecordVal > tFilterVal \<or> tRecordVal = tFilterVal
                     else if op = ''<'' then tRecordVal < tFilterVal
                     else if op = ''<='' then tRecordVal < tFilterVal \<or> tRecordVal = tFilterVal
                     else False))
      else False)"

text \<open>
  \<open>applyFilterRecursive\<close>. The loop \<open>for i := 1; i < len(filterGroup); i += 2\<close> is
  \<open>applyGroupLoop\<close>, called on the elements from index \<open>i\<close> on with the running
  \<open>currentMatch\<close>. The single-value type assertion \<open>filterGroup[0].([]interface{})\<close>
  panics when element 0 is not an array.
\<close>

fun applyFilterRecursive :: "golib \<Rightarrow> row \<Rightarrow> TableSchema \<Rightarrow> jvalue list \<Rightarrow> error + bool"
  and applyGroupLoop :: "golib \<Rightarrow> row \<Rightarrow> TableSchema \<Rightarrow> bool \<Rightarrow> jvalue list \<Rightarrow> error + bool"
where
  "applyFilterRecursive g rec schema filterGroup =
     (case filterGroup of
        [] \<Rightarrow> Inr True
      | x0 # rest \<Rightarrow>
          if x0 = JStr ''!'' then
            (case rest of
               [x1] \<Rightarrow>
                 (case x1 of
                    JArr subFilterGroup \<Rightarrow>
                      (case applyFilterRecursive g rec schema subFilterGroup of
                         Inl err \<Rightarrow> Inl err
                       | Inr subMatch \<Rightarrow> Inr (\<not> subMatch))
                  | _ \<Rightarrow> Inl MalformedNot)
             | _ \<Rightarrow> Inl MalformedNot)
          else
            (case x0 of
               JStr fieldName \<Rightarrow>
                 (case rest of
                    [x1, val] \<Rightarrow>
                      (let operator = (case x1 of JStr s \<Rightarrow> s | _ \<Rightarrow> [])
                       in case FieldMap schema (ToLower g fieldName) of
                            None \<Rightarrow> Inl (UnknownField fieldName)
                          | Some fieldSchema \<Rightarrow>
                              (case rec fieldName of
                                 None \<Rightarrow> Inr False
                               | Some recordVal \<Rightarrow>
                                   Inr (evaluateCondition g recordVal operator val
                                          (Type fieldSchema))))
                  | _ \<Rightarrow> Inl RuntimePanic)
             | JArr sub0 \<Rightarrow>
                 (case applyFilterRecursive g rec schema sub0 of
                    Inl err \<Rightarrow> Inl err
                  | Inr currentMatch \<Rightarrow> applyGroupLoop g rec schema currentMatch rest)
             | _ \<Rightarrow> Inl RuntimePanic))"
| "applyGroupLoop g rec schema currentMatch rest =
     (case rest of
        [] \<Rightarrow> Inr currentMatch
      | [x] \<Rightarrow> Inl MalformedGroup
      | xop # xsub # rest' \<Rightarrow>
          (case xop of
             JStr logicalOperatorStr \<Rightarrow>
               (case xsub of
                  JArr subFilterGroup \<Rightarrow>
                    (case applyFilterRecursive g rec schema subFilterGroup of
                       Inl err \<Rightarrow> Inl err
                     | Inr nextSubMatch \<Rightarrow>
                         if ToLower g logicalOperatorStr = ''and'' then
                           applyGroupLoop g rec schema (currentMatch \<and> nextSubMatch) rest'
                         else if ToLower g logicalOperatorStr = ''or'' then
                           applyGroupLoop g rec schema (currentMatch \<or> nextSubMatch) rest'
                         else Inl InvalidLogicalOperator)
                | _ \<Rightarrow> Inl InvalidExpressionShape)
           | _ \<Rightarrow> Inl InvalidLogicalOperator))"

text \<open>
  \<open>FilterDynamicData\<close>: \<open>filterLoop\<close> is its \<open>for _, record := range data\<close>, with the
  records kept so far in \<open>filteredResults\<close>.
\<close>

fun filterLoop :: "golib \<Rightarrow> TableSchema \<Rightarrow> jvalue list \<Rightarrow> row list \<Rightarrow> row list \<Rightarrow> error + row list" where
  "filterLoop g schema filterArray [] filteredResults = Inr filteredResults"
| "filterLoop g schema filterArray (rec # data) filteredResults =
     (case applyFilterRecursive g rec schema filterArray of
        Inl err \<Rightarrow> Inl err
      | Inr match \<Rightarrow>
          filterLoop g schema filterArray data
            (if match then filteredResults @ [rec] else filteredResults))"

definition FilterDynamicData :: "golib \<Rightarrow> row list \<Rightarrow> TableSchema \<Rightarrow> jvalue \<Rightarrow> error + row list" where
  "FilterDynamicData g data schema filterInput =
     (case filterInput of
        JNull \<Rightarrow> Inr data
      | JArr filterArray \<Rightarrow>
          if length filterArray = 0 then Inr data
          else filterLoop g schema filterArray data []
      | _ \<Rightarrow> Inl InvalidExpressionShape)"

text \<open>
  \<open>LoadTableSchema\<close> and \<open>NewGenericEntAdapter\<close> derive the index \<open>FieldMap\<close> from the
  field list: each field under its lower-cased name, a later field replacing an earlier one.
\<close>

definition buildFieldMap ::
  "golib \<Rightarrow> SchemaFieldDefinition list \<Rightarrow> (string \<rightharpoonup> SchemaFieldDefinition)" where
  "buildFieldMap g fs = foldl (\<lambda>m field. m(ToLower g (Name field) \<mapsto> field)) Map.empty fs"

definition mkTableSchema :: "golib \<Rightarrow> string \<Rightarrow> SchemaFieldDefinition list \<Rightarrow> TableSchema" where
  "mkTableSchema g entity fs =
     \<lparr>EntityName = entity, Fields = fs, FieldMap = buildFieldMap g fs\<rparr>"

section \<open>The predicate-tree builder (package main)\<close>

text \<open>The helpers \<open>convertToInt\<close>, \<open>convertToFloat64\<close> and \<open>convertToTime\<close> of filterutils.go,
  on the values a decoded JSON document can hold.\<close>

definition convertToInt :: "golib \<Rightarrow> jvalue \<Rightarrow> error + int" where
  "convertToInt g val =
     (case val of
        JNum v \<Rightarrow>
          if \<not> float_eq (F64 v) (float64_of_int (go_int (F64 v))) then Inl InvalidOperandType
          else Inr (go_int (F64 v))
      | JStr v \<Rightarrow>
          (case Sscan_int g v of
             Some i \<Rightarrow> Inr i
           | None \<Rightarrow>
               (case Sscan_float g v of
                  Some f \<Rightarrow>
                    if \<not> float_eq f (float64_of_int (go_int f)) then Inl InvalidOperandType
                    else Inr (go_int f)
                | None \<Rightarrow> Inl InvalidOperandType))
      | _ \<Rightarrow> Inl InvalidOperandType)"

definition convertToFloat64 :: "golib \<Rightarrow> jvalue \<Rightarrow> error + float64" where
  "convertToFloat64 g val =
     (case val of
        JNum v \<Rightarrow> Inr (F64 v)
      | JStr v \<Rightarrow> (case Sscan_float g v of Some f \<Rightarrow> Inr f | None \<Rightarrow> Inl InvalidOperandType)
      | _ \<Rightarrow> Inl InvalidOperandType)"

definition convertToTime :: "golib \<Rightarrow> jvalue \<Rightarrow> error + int" where
  "convertToTime g val =
     (case val of
        JStr strVal \<Rightarrow>
          (case parse_layouts g
                  [RFC3339, RFC3339Nano, ''2006-01-02T15:04:05Z07:00'', ''2006-01-02T15:04:05'',
                   ''2006-01-02''] strVal of
             Some t \<Rightarrow> Inr t
           | None \<Rightarrow> Inl InvalidOperandType)
      | _ \<Rightarrow> Inl InvalidOperandType)"

text \<open>The operator tables of generic\_ent\_adapter.go: a map from the operator to its handler.\<close>

definition stringOperators :: "string \<rightharpoonup> (string \<Rightarrow> string \<Rightarrow> error + PredicateFunc)" where
  "stringOperators =
     [''='' \<mapsto> (\<lambda>c v. Inr (Some (sql_EQ c (SqlStr v)))),
      ''<>'' \<mapsto> (\<lambda>c v. Inr (Some (sql_NEQ c (SqlStr v)))),
      ''contains'' \<mapsto> (\<lambda>c v. Inr (Some (sql_ContainsFold c v))),
      ''notcontains'' \<mapsto> (\<lambda>c v. Inr (Some (sql_Not (sql_ContainsFold c v)))),
      ''startswith'' \<mapsto> (\<lambda>c v. Inr (Some (sql_HasPrefix c v))),
      ''endswith'' \<mapsto> (\<lambda>c v. Inr (Some (sql_HasSuffix c v)))]"

definition intOperators :: "string \<rightharpoonup> (string \<Rightarrow> int \<Rightarrow> error + PredicateFunc)" where
  "intOperators =
     [''='' \<mapsto> (\<lambda>c v. Inr (Some (sql_EQ c (SqlInt v)))),
      ''<>'' \<mapsto> (\<lambda>c v. Inr (Some (sql_NEQ c (SqlInt v)))),
      ''>'' \<mapsto> (\<lambda>c v. Inr (Some (sql_GT c (SqlInt v)))),
      ''>='' \<mapsto> (\<lambda>c v. Inr (Some (sql_GTE c (SqlInt v)))),
      ''<'' \<mapsto> (\<lambda>c v. Inr (Some (sql_LT c (SqlInt v)))),
      ''<='' \<mapsto> (\<lambda>c v. Inr (Some (sql_LTE c (SqlInt v))))]"

definition floatOperators :: "string \<rightharpoonup> (string \<Rightarrow> float64 \<Rightarrow> error + PredicateFunc)" where
  "floatOperators =
     [''='' \<mapsto> (\<lambda>c v. Inr (Some (sql_EQ c (SqlFloat v)))),
      ''<>'' \<mapsto> (\<lambda>c v. Inr (Some (sql_NEQ c (SqlFloat v)))),
      ''>'' \<mapsto> (\<lambda>c v. Inr (Some (sql_GT c (SqlFloat v)))),
      ''>='' \<mapsto> (\<lambda>c v. Inr (Some (sql_GTE c (SqlFloat v)))),
      ''<'' \<mapsto> (\<lambda>c v. Inr (Some (sql_LT c (SqlFloat v)))),
      ''<='' \<mapsto> (\<lambda>c v. Inr (Some (sql_LTE c (SqlFloat v))))]"

definition boolOperators :: "string \<rightharpoonup> (string \<Rightarrow> bool \<Rightarrow> error + PredicateFunc)" where
  "boolOperators =
     [''='' \<mapsto> (\<lambda>c v. Inr (Some (sql_EQ c (SqlBool v)))),
      ''<>'' \<mapsto> (\<lambda>c v. Inr (Some (sql_NEQ c (SqlBool v))))]"

definition timeOperators :: "string \<rightharpoonup> (string \<Rightarrow> int \<Rightarrow> error + PredicateFunc)" where
  "timeOperators =
     [''='' \<mapsto> (\<lambda>c v. Inr (Some (sql_EQ c (SqlTime v)))),
      ''<>'' \<mapsto> (\<lambda>c v. Inr (Some (sql_NEQ c (SqlTime v)))),
      ''>'' \<mapsto> (\<lambda>c v. Inr (Some (sql_GT c (SqlTime v)))),
      ''>='' \<mapsto> (\<lambda>c v. Inr (Some (sql_GTE c (SqlTime v)))),
      ''<'' \<mapsto> (\<lambda>c v. Inr (Some (sql_LT c (SqlTime v)))),
      ''<='' \<mapsto> (\<lambda>c v. Inr (Some (sql_LTE c (SqlTime v))))]"

text \<open>
  \<open>GenericEntAdapter\<close> and its four methods. In \<open>UnsupportedOperator\<close> the error carries what
  the message names: the operator, the declared type and the field.
\<close>

record GenericEntAdapter =
  entityName :: string
  tableSchema :: TableSchema

definition GenericEntAdapter_GetPredicateForField ::
  "golib \<Rightarrow> GenericEntAdapter \<Rightarrow> string \<Rightarrow> string \<Rightarrow> jvalue \<Rightarrow> error + PredicateFunc" where
  "GenericEntAdapter_GetPredicateForField g ga field op val =
     (let columnName = ToLower g field in
      case FieldMap (tableSchema ga) columnName of
        None \<Rightarrow> Inl (UnknownField field)
      | Some fieldSchema \<Rightarrow>
          (let opLower = ToLower g op in
           if opLower = ''between'' then
             (case val of
                JArr valueSlice \<Rightarrow>
                  if length valueSlice \<noteq> 2 then Inl InvalidOperandType
                  else if Type fieldSchema = ''int'' then
                    (case convertToInt g (valueSlice ! 0) of
                       Inl errL \<Rightarrow> Inl errL
                     | Inr lower \<Rightarrow>
                         (case convertToInt g (valueSlice ! 1) of
                            Inl errU \<Rightarrow> Inl errU
                          | Inr upper \<Rightarrow>
                              Inr (Some (sql_And [sql_GTE columnName (SqlInt lower),
                                                  sql_LTE columnName (SqlInt upper)]))))
                  else if Type fieldSchema = ''float64'' then
                    (case convertToFloat64 g (valueSlice ! 0) of
                       Inl errL \<Rightarrow> Inl errL
                     | Inr lower \<Rightarrow>
                         (case convertToFloat64 g (valueSlice ! 1) of
                            Inl errU \<Rightarrow> Inl errU
                          | Inr upper \<Rightarrow>
                              Inr (Some (sql_And [sql_GTE columnName (SqlFloat lower),
                                                  sql_LTE columnName (SqlFloat upper)]))))
                  else if Type fieldSchema = ''time.Time'' then
                    (case convertToTime g (valueSlice ! 0) of
                       Inl errL \<Rightarrow> Inl errL
                     | Inr lower \<Rightarrow>
                         (case convertToTime g (valueSlice ! 1) of
                            Inl errU \<Rightarrow> Inl errU
                          | Inr upper \<Rightarrow>
                              Inr (Some (sql_And [sql_GTE columnName (SqlTime lower),
                                                  sql_LTE columnName (SqlTime upper)]))))
                  else Inl (UnsupportedOperator ''between'' (Type fieldSchema) field)
              | _ \<Rightarrow> Inl InvalidOperandType)
           else if Type fieldSchema = ''string'' \<or> Type fieldSchema = ''text'' then
             (case val of
                JStr strVal \<Rightarrow>
                  (case stringOperators opLower of
                     Some handler \<Rightarrow> handler columnName strVal
                   | None \<Rightarrow> Inl (UnsupportedOperator op (Type fieldSchema) field))
              | _ \<Rightarrow> Inl InvalidOperandType)
           else if Type fieldSchema = ''int'' then
             (case convertToInt g val of
                 Inl err \<Rightarrow> Inl err
               | Inr intVal \<Rightarrow>
                   (case intOperators opLower of
                      Some handler \<Rightarrow> handler columnName intVal
                    | None \<Rightarrow> Inl (UnsupportedOperator op (Type fieldSchema) field)))
           else if Type fieldSchema = ''float64'' then
             (case convertToFloat64 g val of
                 Inl err \<Rightarrow> Inl err
               | Inr floatVal \<Rightarrow>
                   (case floatOperators opLower of
                      Some handler \<Rightarrow> handler columnName floatVal
                    | None \<Rightarrow> Inl (UnsupportedOperator op (Type fieldSchema) field)))
           else if Type fieldSchema = ''bool'' then
             (case (case val of
                      JBool boolVal \<Rightarrow> Inr boolVal
                    | JStr strVal \<Rightarrow>
                        (case ParseBool (ToLower g strVal) of
                           None \<Rightarrow> Inl InvalidOperandType
                         | Some parsed \<Rightarrow> Inr parsed)
                    | _ \<Rightarrow> Inl InvalidOperandType) of
                Inl err \<Rightarrow> Inl err
              | Inr boolVal \<Rightarrow>
                  (case boolOperators opLower of
                     Some handler \<Rightarrow> handler columnName boolVal
                   | None \<Rightarrow> Inl (UnsupportedOperator op (Type fieldSchema) field)))
           else if Type fieldSchema = ''time.Time'' then
             (case convertToTime g val of
                 Inl err \<Rightarrow> Inl err
               | Inr timeVal \<Rightarrow>
                   (case timeOperators opLower of
                      Some handler \<Rightarrow> handler columnName timeVal
                    | None \<Rightarrow> Inl (UnsupportedOperator op (Type fieldSchema) field)))
           else Inl (UnsupportedFieldType (Type fieldSchema) field)))"

definition GenericEntAdapter_GetAndPredicate :: "PredicateFunc list \<Rightarrow> PredicateFunc" where
  "GenericEntAdapter_GetAndPredicate predicates =
     (let validPreds = map the (filter (\<lambda>p. p \<noteq> None) predicates) in
      if length validPreds = 0 then None
      else if length validPreds = 1 then Some (validPreds ! 0)
      else Some (sql_And validPreds))"

definition GenericEntAdapter_GetOrPredicate :: "PredicateFunc list \<Rightarrow> PredicateFunc" where
  "GenericEntAdapter_GetOrPredicate predicates =
     (let validPreds = map the (filter (\<lambda>p. p \<noteq> None) predicates) in
      if length validPreds = 0 then None
      else if length validPreds = 1 then Some (validPreds ! 0)
      else Some (sql_Or validPreds))"

definition GenericEntAdapter_GetNotPredicate :: "PredicateFunc \<Rightarrow> PredicateFunc" where
  "GenericEntAdapter_GetNotPredicate p =
     (case p of None \<Rightarrow> None | Some q \<Rightarrow> Some (sql_Not q))"

text \<open>The interface \<open>EntityAdapter\<close>, and the generic adapter as an instance of it.\<close>

record EntityAdapter =
  GetPredicateForField :: "string \<Rightarrow> string \<Rightarrow> jvalue \<Rightarrow> error + PredicateFunc"
  GetAndPredicate :: "PredicateFunc list \<Rightarrow> PredicateFunc"
  GetOrPredicate :: "PredicateFunc list \<Rightarrow> PredicateFunc"
  GetNotPredicate :: "PredicateFunc \<Rightarrow> PredicateFunc"

definition genericAdapter :: "golib \<Rightarrow> GenericEntAdapter \<Rightarrow> EntityAdapter" where
  "genericAdapter g ga =
     \<lparr>GetPredicateForField = GenericEntAdapter_GetPredicateForField g ga,
      GetAndPredicate = GenericEntAdapter_GetAndPredicate,
      GetOrPredicate = GenericEntAdapter_GetOrPredicate,
      GetNotPredicate = GenericEntAdapter_GetNotPredicate\<rparr>"

text \<open>
  \<open>ParseFilterToPredicates\<close>; \<open>g\<close> is the library, whose \<open>strings.ToLower\<close> it calls.
  \<open>collectGroup\<close> is the loop
  \<open>for i, item := range filterArray\<close> from index \<open>i\<close> on, with the slices \<open>predicates\<close> and
  \<open>ops\<close> built so far; \<open>combineLoop\<close> is the loop \<open>for i, op := range ops\<close>.
\<close>

fun combineLoop ::
  "EntityAdapter \<Rightarrow> PredicateFunc list \<Rightarrow> nat \<Rightarrow> string list \<Rightarrow> PredicateFunc \<Rightarrow> error + PredicateFunc" where
  "combineLoop a predicates i [] currentPredicate = Inr currentPredicate"
| "combineLoop a predicates i (op # ops) currentPredicate =
     (if i + 1 \<ge> length predicates then Inl InternalError
      else
        (let nextPredicate = predicates ! (i + 1) in
         if op = ''and'' then
           combineLoop a predicates (i + 1) ops (GetAndPredicate a [currentPredicate, nextPredicate])
         else
           combineLoop a predicates (i + 1) ops (GetOrPredicate a [currentPredicate, nextPredicate])))"

text \<open>The end of \<open>ParseFilterToPredicates\<close>, after the collecting loop.\<close>

definition combineGroup ::
  "EntityAdapter \<Rightarrow> PredicateFunc list \<Rightarrow> string list \<Rightarrow> error + PredicateFunc" where
  "combineGroup a predicates ops =
     (if length predicates = 0 then Inr None
      else if length predicates = 1 then Inr (predicates ! 0)
      else if length ops \<noteq> length predicates - 1 then Inl MalformedGroup
      else combineLoop a predicates 0 ops (predicates ! 0))"

fun ParseFilterToPredicates :: "golib \<Rightarrow> EntityAdapter option \<Rightarrow> jvalue \<Rightarrow> error + PredicateFunc"
  and collectGroup ::
    "golib \<Rightarrow> EntityAdapter option \<Rightarrow> nat \<Rightarrow> jvalue list \<Rightarrow> PredicateFunc list \<Rightarrow> string list \<Rightarrow>
     error + (PredicateFunc list \<times> string list)"
where
  "ParseFilterToPredicates g adapter filterInput =
     (case adapter of
        None \<Rightarrow> Inl NilAdapter
      | Some a \<Rightarrow>
          (case filterInput of
             JNull \<Rightarrow> Inr None
           | JArr filterArray \<Rightarrow>
               (case filterArray of
                  [] \<Rightarrow> Inr None
                | x0 # rest \<Rightarrow>
                    if x0 = JStr ''!'' then
                      (case rest of
                         [x1] \<Rightarrow>
                           (case ParseFilterToPredicates g adapter x1 of
                              Inl err \<Rightarrow> Inl err
                            | Inr subPredicate \<Rightarrow>
                                if subPredicate = None then Inr None
                                else Inr (GetNotPredicate a subPredicate))
                       | _ \<Rightarrow> Inl MalformedNot)
                    else
                      (case x0 of
                         JStr fieldName \<Rightarrow>
                           if length filterArray = 3 \<and> ToLower g fieldName \<noteq> ''and'' \<and>
                              ToLower g fieldName \<noteq> ''or'' \<and> ToLower g fieldName \<noteq> ''!''
                           then
                             (case filterArray ! 1 of
                                JStr operator \<Rightarrow>
                                  GetPredicateForField a fieldName operator (filterArray ! 2)
                              | _ \<Rightarrow> Inl InvalidOperator)
                           else
                             (case collectGroup g adapter 0 filterArray [] [] of
                                Inl err \<Rightarrow> Inl err
                              | Inr (predicates, ops) \<Rightarrow> combineGroup a predicates ops)
                       | _ \<Rightarrow>
                           (case collectGroup g adapter 0 filterArray [] [] of
                              Inl err \<Rightarrow> Inl err
                            | Inr (predicates, ops) \<Rightarrow> combineGroup a predicates ops)))
           | _ \<Rightarrow> Inl InvalidExpressionShape))"
| "collectGroup g adapter i [] predicates ops = Inr (predicates, ops)"
| "collectGroup g adapter i (item # rest) predicates ops =
     (if i mod 2 = 0 then
        (case ParseFilterToPredicates g adapter item of
           Inl err \<Rightarrow> Inl err
         | Inr p \<Rightarrow>
             collectGroup g adapter (i + 1) rest
               (if p \<noteq> None then predicates @ [p] else predicates) ops)
      else
        (case item of
           JStr opStr \<Rightarrow>
             if ToLower g opStr \<noteq> ''and'' \<and> ToLower g opStr \<noteq> ''or'' then Inl InvalidLogicalOperator
             else collectGroup g adapter (i + 1) rest predicates (ops @ [ToLower g opStr])
         | _ \<Rightarrow> Inl InvalidLogicalOperator))"

section \<open>Notions used in the statements\<close>

text \<open>The elements of a group at even positions, the position of the first one being \<open>i\<close>:
  the operands of the chain.\<close>

fun evenItems :: "nat \<Rightarrow> 'a list \<Rightarrow> 'a list" where
  "evenItems i [] = []"
| "evenItems i (x # xs) = (if i mod 2 = 0 then x # evenItems (i + 1) xs else evenItems (i + 1) xs)"

text \<open>The operators that \<open>evaluateCondition\<close> has a \<open>case\<close> for, by declared type.\<close>

definition inMemoryOperators :: "string \<Rightarrow> string set" where
  "inMemoryOperators fieldType =
     (if fieldType = ''string'' then
        {''='', ''<>'', ''contains'', ''startswith'', ''endswith'', ''notcontains''}
      else if fieldType = ''int'' \<or> fieldType = ''float64'' \<or> fieldType = ''time.Time'' then
        {''='', ''<>'', ''>'', ''>='', ''<'', ''<=''}
      else if fieldType = ''bool'' then {''='', ''<>''}
      else {})"

subsection \<open>The query engine\<close>

text \<open>
  The query engine (SQLite, reached through ent) is outside the repository. A condition of
  SQL has three values: true, false and unknown, here \<open>Some True\<close>, \<open>Some False\<close> and
  \<open>None\<close>. \<open>AND\<close>, \<open>OR\<close> and \<open>NOT\<close> follow the three-valued tables, and a query returns
  the rows on which the condition is true. The reading of a comparison on a row is the
  parameter \<open>leaf\<close>.
\<close>

fun and3 :: "bool option \<Rightarrow> bool option \<Rightarrow> bool option" where
  "and3 (Some False) b = Some False"
| "and3 a (Some False) = Some False"
| "and3 (Some True) (Some True) = Some True"
| "and3 a b = None"

fun or3 :: "bool option \<Rightarrow> bool option \<Rightarrow> bool option" where
  "or3 (Some True) b = Some True"
| "or3 a (Some True) = Some True"
| "or3 (Some False) (Some False) = Some False"
| "or3 a b = None"









subsection \<open>Expressions on which the backends are compared\<close>






section \<open>Concrete inputs\<close>

text \<open>
  A library instance for the closed evaluations below. It covers the natural numbers in
  plain decimal notation, which Go prints and parses the same way (\<open>float64(100)\<close> prints as
  \<open>100\<close>), and prints an array as Go does, \<open>[100 200]\<close>. Any other number or object prints
  as \<open>?\<close>, and any other string fails to parse. Of the time layouts it has the date-only
  one, for two dates, an instant being the number of days since 1970-01-01. Of the Unicode
  tables it has the letter \<open>E\<close> with acute accent, whose capital form is the bytes
  \<open>C3 89\<close> and whose small form is the bytes \<open>C3 A9\<close>. The inputs below hold no other
  value.
\<close>

definition digit_char :: "nat \<Rightarrow> char" where
  "digit_char d = ''0123456789'' ! d"

fun print_nat :: "nat \<Rightarrow> string" where
  "print_nat n = (if n < 10 then [digit_char n] else print_nat (n div 10) @ [digit_char (n mod 10)])"

definition digit_val :: "char \<Rightarrow> nat option" where
  "digit_val c = map_of (zip ''0123456789'' [0, 1, 2, 3, 4, 5, 6, 7, 8, 9]) c"

fun parse_nat :: "nat \<Rightarrow> string \<Rightarrow> nat option" where
  "parse_nat acc [] = Some acc"
| "parse_nat acc (c # s) =
     (case digit_val c of None \<Rightarrow> None | Some d \<Rightarrow> parse_nat (10 * acc + d) s)"

definition parse_decimal :: "string \<Rightarrow> nat option" where
  "parse_decimal s = (if s = [] then None else parse_nat 0 s)"

fun join_space :: "string list \<Rightarrow> string" where
  "join_space [] = []"
| "join_space [s] = s"
| "join_space (s # t # ss) = s @ '' '' @ join_space (t # ss)"

fun print_value :: "jvalue \<Rightarrow> string" where
  "print_value (JStr s) = s"
| "print_value (JBool b) = (if b then ''true'' else ''false'')"
| "print_value JNull = ''<nil>''"
| "print_value (JNum x) =
     (if 0 \<le> x \<and> x = of_int \<lfloor>x\<rfloor> then print_nat (nat \<lfloor>x\<rfloor>) else ''?'')"
| "print_value (JArr xs) = ''['' @ join_space (map print_value xs) @ '']''"
| "print_value (JObj kvs) = ''?''"

definition E_acute_capital :: string where
  "E_acute_capital = [CHR 0xC3, CHR 0x89]"

definition e_acute_small :: string where
  "e_acute_small = [CHR 0xC3, CHR 0xA9]"

definition lib0 :: golib where
  "lib0 =
     \<lparr>fmt_other = print_value,
      ParseFloat = (\<lambda>s. map_option (\<lambda>n. F64 (of_nat n)) (parse_decimal s)),
      time_Parse = (\<lambda>layout s.
        if layout = ''2006-01-02'' then map_of [(''2024-01-01'', 19723), (''2024-01-31'', 19753)] s
        else None),
      Sscan_int = (\<lambda>s. map_option int (parse_decimal s)),
      Sscan_float = (\<lambda>s. map_option (\<lambda>n. F64 (of_nat n)) (parse_decimal s)),
      unicode_ToLower = (\<lambda>s. if s = E_acute_capital then e_acute_small else s),
      unicode_EqualFold = (\<lambda>s t.
        (if s = E_acute_capital then e_acute_small else s) =
        (if t = E_acute_capital then e_acute_small else t))\<rparr>"


text \<open>The schema \<open>{amount: float64, name: string}\<close> of the specification's scenario.\<close>

definition schema0 :: TableSchema where
  "schema0 = mkTableSchema lib0 ''transaction''
     [\<lparr>Name = ''amount'', Type = ''float64''\<rparr>, \<lparr>Name = ''name'', Type = ''string''\<rparr>]"

definition ga0 :: GenericEntAdapter where
  "ga0 = \<lparr>entityName = ''transaction'', tableSchema = schema0\<rparr>"

definition adapter0 :: "EntityAdapter option" where
  "adapter0 = Some (genericAdapter lib0 ga0)"

definition row0 :: row where
  "row0 = [''amount'' \<mapsto> JNum 100, ''name'' \<mapsto> JStr ''Foo'']"

text \<open>A schema with one field of each type, as the entity \<open>Test1Schema\<close> has.\<close>

definition schema1 :: TableSchema where
  "schema1 = mkTableSchema lib0 ''test1schema''
     [\<lparr>Name = ''field_string'', Type = ''string''\<rparr>, \<lparr>Name = ''field_int'', Type = ''int''\<rparr>,
      \<lparr>Name = ''field_float'', Type = ''float64''\<rparr>, \<lparr>Name = ''field_bool'', Type = ''bool''\<rparr>,
      \<lparr>Name = ''field_time'', Type = ''time.Time''\<rparr>, \<lparr>Name = ''field_text'', Type = ''text''\<rparr>]"

definition ga1 :: GenericEntAdapter where
  "ga1 = \<lparr>entityName = ''test1schema'', tableSchema = schema1\<rparr>"











section \<open>Evaluation lemmas\<close>

text \<open>
  The defining equations of the two recursive walks unfold at every call; they leave the
  simplifier, and the equations below, one per shape of the expression, take their place.
\<close>

declare applyFilterRecursive.simps [simp del]
declare applyGroupLoop.simps [simp del]
declare ParseFilterToPredicates.simps [simp del]

lemma isASCII_Nil [simp]: "isASCII []"
  by (simp add: isASCII_def)

lemma isASCII_Cons [simp]: "isASCII (c # s) = (\<not> digit7 c \<and> isASCII s)"
  by (simp add: isASCII_def)

lemma ToLower_ascii [simp]: "isASCII s \<Longrightarrow> ToLower g s = map lower_char s"
  by (simp add: ToLower_def)

lemma EqualFold_ascii [simp]:
  "isASCII s \<Longrightarrow> isASCII t \<Longrightarrow> EqualFold g s t = (map lower_char s = map lower_char t)"
  by (simp add: EqualFold_def)

lemma ToLower_bang: "ToLower g fieldName \<noteq> ''!'' \<Longrightarrow> fieldName \<noteq> ''!''"
  by (auto simp: lower_char_def)

lemma schema0_amount: "FieldMap schema0 ''amount'' = Some \<lparr>Name = ''amount'', Type = ''float64''\<rparr>"
  by (simp add: schema0_def mkTableSchema_def buildFieldMap_def lower_char_def)

lemma schema0_name: "FieldMap schema0 ''name'' = Some \<lparr>Name = ''name'', Type = ''string''\<rparr>"
  by (simp add: schema0_def mkTableSchema_def buildFieldMap_def lower_char_def)

lemma applyFilterRecursive_Nil [simp]: "applyFilterRecursive g rec schema [] = Inr True"
  by (simp add: applyFilterRecursive.simps)

lemma applyFilterRecursive_Not [simp]:
  "applyFilterRecursive g rec schema (JStr ''!'' # rest) =
     (case rest of
        [x1] \<Rightarrow>
          (case x1 of
             JArr subFilterGroup \<Rightarrow>
               (case applyFilterRecursive g rec schema subFilterGroup of
                  Inl err \<Rightarrow> Inl err
                | Inr subMatch \<Rightarrow> Inr (\<not> subMatch))
           | _ \<Rightarrow> Inl MalformedNot)
      | _ \<Rightarrow> Inl MalformedNot)"
  by (subst applyFilterRecursive.simps) simp

lemma applyFilterRecursive_Str:
  "fieldName \<noteq> ''!'' \<Longrightarrow>
   applyFilterRecursive g rec schema (JStr fieldName # rest) =
     (case rest of
        [x1, val] \<Rightarrow>
          (case FieldMap schema (ToLower g fieldName) of
             None \<Rightarrow> Inl (UnknownField fieldName)
           | Some fieldSchema \<Rightarrow>
               (case rec fieldName of
                  None \<Rightarrow> Inr False
                | Some recordVal \<Rightarrow>
                    Inr (evaluateCondition g recordVal (case x1 of JStr s \<Rightarrow> s | _ \<Rightarrow> []) val
                           (Type fieldSchema))))
      | _ \<Rightarrow> Inl RuntimePanic)"
  by (subst applyFilterRecursive.simps) (simp add: Let_def split: list.splits)

lemma applyFilterRecursive_Arr [simp]:
  "applyFilterRecursive g rec schema (JArr sub0 # rest) =
     (case applyFilterRecursive g rec schema sub0 of
        Inl err \<Rightarrow> Inl err
      | Inr currentMatch \<Rightarrow> applyGroupLoop g rec schema currentMatch rest)"
  by (subst applyFilterRecursive.simps) simp

lemma applyFilterRecursive_panic [simp]:
  "applyFilterRecursive g rec schema (JNum n # rest) = Inl RuntimePanic"
  "applyFilterRecursive g rec schema (JBool b # rest) = Inl RuntimePanic"
  "applyFilterRecursive g rec schema (JNull # rest) = Inl RuntimePanic"
  "applyFilterRecursive g rec schema (JObj kvs # rest) = Inl RuntimePanic"
  by (simp_all add: applyFilterRecursive.simps)

lemma applyGroupLoop_Nil [simp]: "applyGroupLoop g rec schema currentMatch [] = Inr currentMatch"
  by (simp add: applyGroupLoop.simps)

lemma applyGroupLoop_single [simp]:
  "applyGroupLoop g rec schema currentMatch [x] = Inl MalformedGroup"
  by (simp add: applyGroupLoop.simps)

lemma applyGroupLoop_step [simp]:
  "applyGroupLoop g rec schema currentMatch (JStr logicalOperatorStr # JArr subFilterGroup # rest) =
     (case applyFilterRecursive g rec schema subFilterGroup of
        Inl err \<Rightarrow> Inl err
      | Inr nextSubMatch \<Rightarrow>
          if ToLower g logicalOperatorStr = ''and'' then
            applyGroupLoop g rec schema (currentMatch \<and> nextSubMatch) rest
          else if ToLower g logicalOperatorStr = ''or'' then
            applyGroupLoop g rec schema (currentMatch \<or> nextSubMatch) rest
          else Inl InvalidLogicalOperator)"
  by (subst applyGroupLoop.simps) simp

lemma ParseFilterToPredicates_nil_adapter [simp]:
  "ParseFilterToPredicates g None filterInput = Inl NilAdapter"
  by (simp add: ParseFilterToPredicates.simps)

lemma ParseFilterToPredicates_scalar [simp]:
  "ParseFilterToPredicates g (Some a) JNull = Inr None"
  "ParseFilterToPredicates g (Some a) (JBool b) = Inl InvalidExpressionShape"
  "ParseFilterToPredicates g (Some a) (JNum n) = Inl InvalidExpressionShape"
  "ParseFilterToPredicates g (Some a) (JStr s) = Inl InvalidExpressionShape"
  "ParseFilterToPredicates g (Some a) (JObj kvs) = Inl InvalidExpressionShape"
  "ParseFilterToPredicates g (Some a) (JArr []) = Inr None"
  by (simp_all add: ParseFilterToPredicates.simps)

lemma ParseFilterToPredicates_Not [simp]:
  "ParseFilterToPredicates g (Some a) (JArr (JStr ''!'' # rest)) =
     (case rest of
        [x1] \<Rightarrow>
          (case ParseFilterToPredicates g (Some a) x1 of
             Inl err \<Rightarrow> Inl err
           | Inr subPredicate \<Rightarrow>
               if subPredicate = None then Inr None else Inr (GetNotPredicate a subPredicate))
      | _ \<Rightarrow> Inl MalformedNot)"
  by (subst ParseFilterToPredicates.simps) simp


lemma ParseFilterToPredicates_group [simp]:
  "ParseFilterToPredicates g (Some a) (JArr (JArr sub0 # rest)) =
     (case collectGroup g (Some a) 0 (JArr sub0 # rest) [] [] of
        Inl err \<Rightarrow> Inl err
      | Inr (predicates, ops) \<Rightarrow> combineGroup a predicates ops)"
  by (subst ParseFilterToPredicates.simps) simp

lemma schema0_lower_name: "FieldMap schema0 (ToLower g ''name'') = Some \<lparr>Name = ''name'', Type = ''string''\<rparr>"
  by (simp add: schema0_name lower_char_def)


lemma filterLoop_total:
  "(\<And>rec. rec \<in> set data \<Longrightarrow> applyFilterRecursive g rec schema filterArray = Inr (m rec)) \<Longrightarrow>
   filterLoop g schema filterArray data acc = Inr (acc @ filter m data)"
  by (induction data arbitrary: acc) auto

lemma collectGroup_keeps_non_nil:
  "collectGroup g (Some a) i items preds ops = Inr (ps, os) \<Longrightarrow>
   map Inr ps =
     map Inr preds @ filter (\<lambda>r. r \<noteq> Inr None) (map (ParseFilterToPredicates g (Some a)) (evenItems i items))"
proof (induction items arbitrary: i preds ops)
  case Nil
  then show ?case by simp
next
  case (Cons item rest)
  show ?case
  proof (cases "i mod 2 = 0")
    case True
    with Cons.prems obtain p where
      p: "ParseFilterToPredicates g (Some a) item = Inr p" and
      c: "collectGroup g (Some a) (i + 1) rest (if p \<noteq> None then preds @ [p] else preds) ops = Inr (ps, os)"
      by (auto split: sum.splits)
    from Cons.IH [OF c] True p show ?thesis by auto
  next
    case False
    with Cons.prems obtain opStr where
      c: "collectGroup g (Some a) (i + 1) rest preds (ops @ [ToLower g opStr]) = Inr (ps, os)"
      by (auto split: jvalue.splits if_splits)
    from Cons.IH [OF c] False show ?thesis by simp
  qed
qed


lemma evaluateCondition_unknown_operator:
  assumes "ToLower g op \<notin> inMemoryOperators fieldType"
  shows "evaluateCondition g recordVal op filterVal fieldType = False"
proof -
  consider (str) "fieldType = ''string''" | (int) "fieldType = ''int''"
    | (float) "fieldType = ''float64''" | (bool) "fieldType = ''bool''"
    | (time) "fieldType = ''time.Time''"
    | (other) "fieldType \<noteq> ''string''" "fieldType \<noteq> ''int''" "fieldType \<noteq> ''float64''"
        "fieldType \<noteq> ''bool''" "fieldType \<noteq> ''time.Time''"
    by blast
  then show ?thesis
  proof cases
    case str
    with assms have "ToLower g op \<noteq> ''=''" "ToLower g op \<noteq> ''<>''" "ToLower g op \<noteq> ''contains''"
      "ToLower g op \<noteq> ''startswith''" "ToLower g op \<noteq> ''endswith''" "ToLower g op \<noteq> ''notcontains''"
      by (simp_all add: inMemoryOperators_def)
    with str show ?thesis
      by (simp add: evaluateCondition_def Let_def)
  next
    case int
    with assms have "ToLower g op \<noteq> ''=''" "ToLower g op \<noteq> ''<>''" "ToLower g op \<noteq> ''>''"
      "ToLower g op \<noteq> ''>=''" "ToLower g op \<noteq> ''<''" "ToLower g op \<noteq> ''<=''"
      by (simp_all add: inMemoryOperators_def)
    with int show ?thesis
      by (simp add: evaluateCondition_def Let_def split: jvalue.split option.split)
  next
    case float
    with assms have "ToLower g op \<noteq> ''=''" "ToLower g op \<noteq> ''<>''" "ToLower g op \<noteq> ''>''"
      "ToLower g op \<noteq> ''>=''" "ToLower g op \<noteq> ''<''" "ToLower g op \<noteq> ''<=''"
      by (simp_all add: inMemoryOperators_def)
    with float show ?thesis
      by (simp add: evaluateCondition_def Let_def split: jvalue.split option.split)
  next
    case bool
    with assms have "ToLower g op \<noteq> ''=''" "ToLower g op \<noteq> ''<>''"
      by (simp_all add: inMemoryOperators_def)
    with bool show ?thesis
      by (simp add: evaluateCondition_def Let_def split: jvalue.split option.split)
  next
    case time
    with assms have "ToLower g op \<noteq> ''=''" "ToLower g op \<noteq> ''<>''" "ToLower g op \<noteq> ''>''"
      "ToLower g op \<noteq> ''>=''" "ToLower g op \<noteq> ''<''" "ToLower g op \<noteq> ''<=''"
      by (simp_all add: inMemoryOperators_def)
    with time show ?thesis
      by (simp add: evaluateCondition_def Let_def split: option.split)
  next
    case other
    then show ?thesis
      by (simp add: evaluateCondition_def Let_def)
  qed
qed



lemma leaf_in_memory:
  assumes "FieldMap schema (ToLower g field) = Some fieldSchema" and "field \<noteq> ''!''"
  shows "applyFilterRecursive g rec schema [JStr field, JStr op, val] =
     Inr (case rec field of
            None \<Rightarrow> False
          | Some recordVal \<Rightarrow> evaluateCondition g recordVal op val (Type fieldSchema))"
  using assms by (simp add: applyFilterRecursive_Str split: option.splits)

lemma GetPredicateForField_other:
  assumes "FieldMap (tableSchema ga) (ToLower g field) = Some fieldSchema"
    and "ToLower g op \<noteq> ''between''"
  shows "GenericEntAdapter_GetPredicateForField g ga field op val =
     (if Type fieldSchema = ''string'' \<or> Type fieldSchema = ''text'' then
        (case val of
           JStr strVal \<Rightarrow>
             (case stringOperators (ToLower g op) of
                Some handler \<Rightarrow> handler (ToLower g field) strVal
              | None \<Rightarrow> Inl (UnsupportedOperator op (Type fieldSchema) field))
         | _ \<Rightarrow> Inl InvalidOperandType)
      else if Type fieldSchema = ''int'' then
        (case convertToInt g val of
           Inl err \<Rightarrow> Inl err
         | Inr intVal \<Rightarrow>
             (case intOperators (ToLower g op) of
                Some handler \<Rightarrow> handler (ToLower g field) intVal
              | None \<Rightarrow> Inl (UnsupportedOperator op (Type fieldSchema) field)))
      else if Type fieldSchema = ''float64'' then
        (case convertToFloat64 g val of
           Inl err \<Rightarrow> Inl err
         | Inr floatVal \<Rightarrow>
             (case floatOperators (ToLower g op) of
                Some handler \<Rightarrow> handler (ToLower g field) floatVal
              | None \<Rightarrow> Inl (UnsupportedOperator op (Type fieldSchema) field)))
      else if Type fieldSchema = ''bool'' then
        (case (case val of
                 JBool boolVal \<Rightarrow> Inr boolVal
               | JStr strVal \<Rightarrow>
                   (case ParseBool (ToLower g strVal) of
                      None \<Rightarrow> Inl InvalidOperandType
                    | Some parsed \<Rightarrow> Inr parsed)
               | _ \<Rightarrow> Inl InvalidOperandType) of
           Inl err \<Rightarrow> Inl err
         | Inr boolVal \<Rightarrow>
             (case boolOperators (ToLower g op) of
                Some handler \<Rightarrow> handler (ToLower g field) boolVal
              | None \<Rightarrow> Inl (UnsupportedOperator op (Type fieldSchema) field)))
      else if Type fieldSchema = ''time.Time'' then
        (case convertToTime g val of
           Inl err \<Rightarrow> Inl err
         | Inr timeVal \<Rightarrow>
             (case timeOperators (ToLower g op) of
                Some handler \<Rightarrow> handler (ToLower g field) timeVal
              | None \<Rightarrow> Inl (UnsupportedOperator op (Type fieldSchema) field)))
      else Inl (UnsupportedFieldType (Type fieldSchema) field))"
  by (simp add: GenericEntAdapter_GetPredicateForField_def Let_def assms)



lemma builder_chain3:
  assumes "ParseFilterToPredicates g (Some ad) (JArr A) = Inr (Some pa)"
    and "ParseFilterToPredicates g (Some ad) (JArr B) = Inr (Some pb)"
    and "ParseFilterToPredicates g (Some ad) (JArr C) = Inr (Some pc)"
  shows "ParseFilterToPredicates g (Some ad) (JArr [JArr A, JStr ''or'', JArr B, JStr ''and'', JArr C]) =
      Inr (GetAndPredicate ad [GetOrPredicate ad [Some pa, Some pb], Some pc])"
  using assms by (simp add: lower_char_def combineGroup_def)

section \<open>The empty filter\<close>

text \<open>
  C8. For every schema and every record the empty filter expression \<open>[]\<close> evaluates to
  true, \<open>FilterDynamicData\<close> returns all records unchanged, and the predicate backend returns
  no predicate and no error.
\<close>

theorem C8_empty_filter_matches_everything:
  "applyFilterRecursive g rec schema [] = Inr True \<and>
   FilterDynamicData g data schema (JArr []) = Inr data \<and>
   ParseFilterToPredicates g (Some a) (JArr []) = Inr None"
  by (simp add: FilterDynamicData_def)

section \<open>Malformed expressions\<close>

text \<open>
  C2. A group whose element 0 is neither a string nor an array, such as a number, makes the
  in-memory evaluator panic: \<open>applyFilterRecursive\<close> asserts \<open>filterGroup[0].([]interface{})\<close>
  without the \<open>ok\<close> check that it makes for the later operands. The same holds for the
  two-element \<open>["amount", "="]\<close>. The predicate backend returns an error for both.
\<close>

theorem C2_in_memory_group_panics:
  "applyFilterRecursive g rec schema (JNum n # rest) = Inl RuntimePanic \<and>
   applyFilterRecursive g rec schema [JStr ''amount'', JStr ''=''] = Inl RuntimePanic \<and>
   ParseFilterToPredicates g (Some a) (JArr (JNum n # rest)) = Inl InvalidExpressionShape \<and>
   ParseFilterToPredicates g (Some a) (JArr [JStr ''amount'', JStr ''='']) = Inl InvalidExpressionShape"
  by (simp add: applyFilterRecursive.simps ParseFilterToPredicates.simps)

text \<open>
  C3. On the specification's own example \<open>[["amount","=",100], "and"]\<close> the in-memory
  evaluator fails with \<open>MalformedGroup\<close>, but the predicate builder returns the predicate of
  the single condition and no error: with one collected predicate it returns before it
  compares the numbers of conditions and operators.
\<close>

theorem C3_dangling_operator_in_predicate_builder:
  "applyFilterRecursive lib0 row0 schema0
     [JArr [JStr ''amount'', JStr ''='', JNum 100], JStr ''and''] = Inl MalformedGroup \<and>
   ParseFilterToPredicates lib0 adapter0
     (JArr [JArr [JStr ''amount'', JStr ''='', JNum 100], JStr ''and'']) =
     Inr (Some (sql_EQ ''amount'' (SqlFloat (F64 100))))"
  by code_simp

section \<open>Chains\<close>

text \<open>
  C7. In the in-memory evaluator the one-level chain \<open>[A, "or", B, "and", C]\<close> is combined
  strictly from left to right, for all \<open>A\<close>, \<open>B\<close> and \<open>C\<close>: its value is
  \<open>(eval A or eval B) and eval C\<close>, an error of \<open>A\<close>, \<open>B\<close> or \<open>C\<close> (in this order) being
  returned as it is. The predicate builder does not follow on every such chain: an operand
  that parses to no predicate is dropped while its operator is kept, so that on
  \<open>[[], "or", ["name","=","foo"], "and", ["amount","=",100]]\<close>, which matches the record in
  memory, it fails with the error of mismatched numbers of conditions and operators.
\<close>

theorem C7_chain_left_to_right:
  "applyFilterRecursive g rec schema [JArr A, JStr ''or'', JArr B, JStr ''and'', JArr C] =
     (case applyFilterRecursive g rec schema A of
        Inl err \<Rightarrow> Inl err
      | Inr a \<Rightarrow>
          (case applyFilterRecursive g rec schema B of
             Inl err \<Rightarrow> Inl err
           | Inr b \<Rightarrow>
               (case applyFilterRecursive g rec schema C of
                  Inl err \<Rightarrow> Inl err
                | Inr c \<Rightarrow> Inr ((a \<or> b) \<and> c)))) \<and>
   applyFilterRecursive lib0 row0 schema0
     [JArr [], JStr ''or'', JArr [JStr ''name'', JStr ''='', JStr ''foo''], JStr ''and'',
      JArr [JStr ''amount'', JStr ''='', JNum 100]] = Inr True \<and>
   ParseFilterToPredicates lib0 adapter0
     (JArr [JArr [], JStr ''or'', JArr [JStr ''name'', JStr ''='', JStr ''foo''], JStr ''and'',
            JArr [JStr ''amount'', JStr ''='', JNum 100]]) = Inl MalformedGroup"
proof (intro conjI)
  show "applyFilterRecursive g rec schema [JArr A, JStr ''or'', JArr B, JStr ''and'', JArr C] =
     (case applyFilterRecursive g rec schema A of
        Inl err \<Rightarrow> Inl err
      | Inr a \<Rightarrow>
          (case applyFilterRecursive g rec schema B of
             Inl err \<Rightarrow> Inl err
           | Inr b \<Rightarrow>
               (case applyFilterRecursive g rec schema C of
                  Inl err \<Rightarrow> Inl err
                | Inr c \<Rightarrow> Inr ((a \<or> b) \<and> c))))"
    by (simp add: lower_char_def split: sum.splits)
next
  show "applyFilterRecursive lib0 row0 schema0
     [JArr [], JStr ''or'', JArr [JStr ''name'', JStr ''='', JStr ''foo''], JStr ''and'',
      JArr [JStr ''amount'', JStr ''='', JNum 100]] = Inr True"
    by code_simp
next
  show "ParseFilterToPredicates lib0 adapter0
     (JArr [JArr [], JStr ''or'', JArr [JStr ''name'', JStr ''='', JStr ''foo''], JStr ''and'',
            JArr [JStr ''amount'', JStr ''='', JNum 100]]) = Inl MalformedGroup"
    by code_simp
qed

section \<open>Records without the field\<close>

text \<open>
  C9. A leaf on a field of the schema evaluates to false, without an error, on a record
  that lacks the field's raw key. The rest of the expression is evaluated as usual
  (\<open>[leaf, "or", B]\<close> has the result of \<open>B\<close>), and so are the other records:
  \<open>FilterDynamicData\<close> returns, in order, the records that hold the key and satisfy the
  condition.
\<close>

theorem C9_missing_field_is_non_match:
  assumes "FieldMap schema (ToLower g fieldName) = Some fieldSchema" and "fieldName \<noteq> ''!''"
  shows "(rec fieldName = None \<longrightarrow>
            applyFilterRecursive g rec schema [JStr fieldName, operator, val] = Inr False) \<and>
         (rec fieldName = None \<longrightarrow>
            applyFilterRecursive g rec schema
              [JArr [JStr fieldName, operator, val], JStr ''or'', JArr B] =
            applyFilterRecursive g rec schema B) \<and>
         FilterDynamicData g data schema (JArr [JStr fieldName, operator, val]) =
           Inr (filter (\<lambda>r. case r fieldName of
                              None \<Rightarrow> False
                            | Some recordVal \<Rightarrow>
                                evaluateCondition g recordVal
                                  (case operator of JStr s \<Rightarrow> s | _ \<Rightarrow> []) val (Type fieldSchema))
                  data)"
proof -
  have leaf: "applyFilterRecursive g r schema [JStr fieldName, operator, val] =
      Inr (case r fieldName of
             None \<Rightarrow> False
           | Some recordVal \<Rightarrow>
               evaluateCondition g recordVal (case operator of JStr s \<Rightarrow> s | _ \<Rightarrow> []) val
                 (Type fieldSchema))" for r
    using assms by (simp add: applyFilterRecursive_Str split: option.splits)
  have "filterLoop g schema [JStr fieldName, operator, val] data [] =
      Inr ([] @ filter (\<lambda>r. case r fieldName of
                              None \<Rightarrow> False
                            | Some recordVal \<Rightarrow>
                                evaluateCondition g recordVal
                                  (case operator of JStr s \<Rightarrow> s | _ \<Rightarrow> []) val (Type fieldSchema))
                  data)"
    by (rule filterLoop_total) (rule leaf)
  then show ?thesis
    by (simp add: leaf FilterDynamicData_def lower_char_def split: sum.splits)
qed

theorem C9_witness:
  "applyFilterRecursive lib0 [''amount'' \<mapsto> JNum 100] schema0 [JStr ''name'', JStr ''='', JStr ''foo''] =
     Inr False \<and>
   FilterDynamicData lib0 [[''amount'' \<mapsto> JNum 100], row0] schema0
     (JArr [JStr ''name'', JStr ''='', JStr ''foo'']) = Inr [row0]"
proof -
  have h: "''name'' \<noteq> ''!''"
    by simp
  have m: "[''amount'' \<mapsto> JNum 100] ''name'' = None"
    by simp
  have e: "evaluateCondition lib0 (JStr ''Foo'') ''='' (JStr ''foo'') ''string''"
    by code_simp
  from C9_missing_field_is_non_match [OF schema0_lower_name h,
      where rec = "[''amount'' \<mapsto> JNum 100]" and operator = "JStr ''=''" and val = "JStr ''foo''"
        and B = "[]" and data = "[[''amount'' \<mapsto> JNum 100], row0]"]
    m e
  show ?thesis
    by (simp add: row0_def)
qed

section \<open>Sub-expressions without a predicate\<close>

text \<open>
  C10, as amended. In the predicate backend a sub-expression that parses to no predicate is
  dropped: its negation, as in \<open>["!", []]\<close>, is no predicate and no error; the predicates a
  chain collects are exactly the non-nil results of its operands, in order;
  \<open>GetAndPredicate\<close> and \<open>GetOrPredicate\<close> return nil when all inputs are nil and the
  predicate itself when exactly one input is not nil. \<open>GetNotPredicate\<close> returns nil for
  nil, and for a predicate \<open>q\<close> its negation \<open>Not(q)\<close>.
\<close>

theorem C10_nil_predicates_are_dropped:
  "(ParseFilterToPredicates g (Some a) x = Inr None \<longrightarrow>
      ParseFilterToPredicates g (Some a) (JArr [JStr ''!'', x]) = Inr None) \<and>
   ParseFilterToPredicates g (Some a) (JArr [JStr ''!'', JArr []]) = Inr None \<and>
   (collectGroup g (Some a) 0 items [] [] = Inr (ps, os) \<longrightarrow>
      map Inr ps =
        filter (\<lambda>r. r \<noteq> Inr None) (map (ParseFilterToPredicates g (Some a)) (evenItems 0 items))) \<and>
   ((\<forall>p \<in> set ns. p = None) \<longrightarrow>
      GenericEntAdapter_GetAndPredicate ns = None \<and> GenericEntAdapter_GetOrPredicate ns = None) \<and>
   (filter (\<lambda>p. p \<noteq> None) qs = [Some q] \<longrightarrow>
      GenericEntAdapter_GetAndPredicate qs = Some q \<and> GenericEntAdapter_GetOrPredicate qs = Some q) \<and>
   GenericEntAdapter_GetNotPredicate None = None \<and>
   GenericEntAdapter_GetNotPredicate (Some q) = Some (sql_Not q)"
proof (intro conjI impI)
  assume "collectGroup g (Some a) 0 items [] [] = Inr (ps, os)"
  from collectGroup_keeps_non_nil [OF this]
  show "map Inr ps =
        filter (\<lambda>r. r \<noteq> Inr None) (map (ParseFilterToPredicates g (Some a)) (evenItems 0 items))"
    by simp
next
  assume "\<forall>p \<in> set ns. p = None"
  then have "filter (\<lambda>p. p \<noteq> None) ns = []"
    by (induction ns) auto
  then show "GenericEntAdapter_GetAndPredicate ns = None" "GenericEntAdapter_GetOrPredicate ns = None"
    by (simp_all add: GenericEntAdapter_GetAndPredicate_def GenericEntAdapter_GetOrPredicate_def)
next
  assume "filter (\<lambda>p. p \<noteq> None) qs = [Some q]"
  then show "GenericEntAdapter_GetAndPredicate qs = Some q" "GenericEntAdapter_GetOrPredicate qs = Some q"
    by (simp_all add: GenericEntAdapter_GetAndPredicate_def GenericEntAdapter_GetOrPredicate_def)
qed (simp_all add: GenericEntAdapter_GetNotPredicate_def)

theorem C10_witness:
  "ParseFilterToPredicates lib0 adapter0 (JArr [JArr []]) = Inr None \<and>
   ParseFilterToPredicates lib0 adapter0 (JArr [JStr ''!'', JArr [JArr []]]) = Inr None \<and>
   collectGroup lib0 adapter0 0 [JArr [], JStr ''and'', JArr [JStr ''name'', JStr ''='', JStr ''Foo'']] [] [] =
     Inr ([Some (sql_EQ ''name'' (SqlStr ''Foo''))], [''and'']) \<and>
   map Inr [Some (sql_EQ ''name'' (SqlStr ''Foo''))] =
     filter (\<lambda>r. r \<noteq> Inr None)
       (map (ParseFilterToPredicates lib0 adapter0)
          (evenItems 0 [JArr [], JStr ''and'', JArr [JStr ''name'', JStr ''='', JStr ''Foo'']])) \<and>
   GenericEntAdapter_GetAndPredicate [None, None] = None \<and>
   GenericEntAdapter_GetOrPredicate [None, None] = None \<and>
   GenericEntAdapter_GetAndPredicate [None, Some (sql_GT ''amount'' (SqlFloat (F64 1))), None] =
     Some (sql_GT ''amount'' (SqlFloat (F64 1))) \<and>
   GenericEntAdapter_GetOrPredicate [None, Some (sql_GT ''amount'' (SqlFloat (F64 1))), None] =
     Some (sql_GT ''amount'' (SqlFloat (F64 1)))"
proof -
  have h1: "ParseFilterToPredicates lib0 adapter0 (JArr [JArr []]) = Inr None"
    by code_simp
  have h2: "collectGroup lib0 adapter0 0
      [JArr [], JStr ''and'', JArr [JStr ''name'', JStr ''='', JStr ''Foo'']] [] [] =
     Inr ([Some (sql_EQ ''name'' (SqlStr ''Foo''))], [''and''])"
    by code_simp
  have h3: "\<forall>p \<in> set [None, None :: PredicateFunc]. p = None"
    by simp
  have h4: "filter (\<lambda>p. p \<noteq> None) [None, Some (sql_GT ''amount'' (SqlFloat (F64 1))), None] =
      [Some (sql_GT ''amount'' (SqlFloat (F64 1)))]"
    by simp
  note t = C10_nil_predicates_are_dropped
    [where g = lib0 and a = "genericAdapter lib0 ga0" and x = "JArr [JArr []]"
       and items = "[JArr [], JStr ''and'', JArr [JStr ''name'', JStr ''='', JStr ''Foo'']]"
       and ps = "[Some (sql_EQ ''name'' (SqlStr ''Foo''))]" and os = "[''and'']"
       and ns = "[None, None]" and qs = "[None, Some (sql_GT ''amount'' (SqlFloat (F64 1))), None]"
       and q = "sql_GT ''amount'' (SqlFloat (F64 1))", folded adapter0_def]
  from t h1 h2 h3 h4 show ?thesis
    by blast
qed

text \<open>C10 as stated fails for \<open>GetNotPredicate\<close>: a non-nil input is not returned as it is.\<close>

theorem C10_counterexample:
  "GenericEntAdapter_GetNotPredicate (Some (sql_EQ ''name'' (SqlStr ''Foo''))) \<noteq>
   Some (sql_EQ ''name'' (SqlStr ''Foo''))"
  by (simp add: GenericEntAdapter_GetNotPredicate_def)

section \<open>The operator between\<close>




section \<open>String operators\<close>




section \<open>Operators a type does not have\<close>

text \<open>
  C6, as amended. In the predicate backend (the generic adapter), a leaf on a string, text,
  int, float64, bool or time.Time field whose value converts to the field's type (a string
  for string and text, a boolean or a string that \<open>strconv.ParseBool\<close> accepts for bool) and
  whose operator, other than \<open>between\<close>, is not in the operator table of that type fails with
  \<open>UnsupportedOperator\<close>, which names the operator, the declared type and the field. In
  the in-memory evaluator such a leaf is no error: it evaluates to false. On an int,
  float64 or time.Time field a value that does not convert fails with the error of the
  conversion, whatever the operator.
\<close>

theorem C6_unsupported_operator:
  assumes "FieldMap (tableSchema ga) (ToLower g field) = Some fieldSchema"
    and "ToLower g op \<noteq> ''between''"
  shows
    "((Type fieldSchema = ''string'' \<or> Type fieldSchema = ''text'') \<and> ToLower g op \<notin> dom stringOperators \<longrightarrow>
        GenericEntAdapter_GetPredicateForField g ga field op (JStr v) = Inl (UnsupportedOperator op (Type fieldSchema) field)) \<and>
     (Type fieldSchema = ''int'' \<and> ToLower g op \<notin> dom intOperators \<and> convertToInt g val = Inr i \<longrightarrow>
        GenericEntAdapter_GetPredicateForField g ga field op val = Inl (UnsupportedOperator op (Type fieldSchema) field)) \<and>
     (Type fieldSchema = ''float64'' \<and> ToLower g op \<notin> dom floatOperators \<and> convertToFloat64 g val = Inr f \<longrightarrow>
        GenericEntAdapter_GetPredicateForField g ga field op val = Inl (UnsupportedOperator op (Type fieldSchema) field)) \<and>
     (Type fieldSchema = ''bool'' \<and> ToLower g op \<notin> dom boolOperators \<longrightarrow>
        GenericEntAdapter_GetPredicateForField g ga field op (JBool b) = Inl (UnsupportedOperator op (Type fieldSchema) field)) \<and>
     (Type fieldSchema = ''bool'' \<and> ToLower g op \<notin> dom boolOperators \<and> ParseBool (ToLower g s) = Some b \<longrightarrow>
        GenericEntAdapter_GetPredicateForField g ga field op (JStr s) = Inl (UnsupportedOperator op (Type fieldSchema) field)) \<and>
     (Type fieldSchema = ''time.Time'' \<and> ToLower g op \<notin> dom timeOperators \<and> convertToTime g val = Inr t \<longrightarrow>
        GenericEntAdapter_GetPredicateForField g ga field op val = Inl (UnsupportedOperator op (Type fieldSchema) field)) \<and>
     ((Type fieldSchema = ''int'' \<and> convertToInt g val = Inl e) \<or>
      (Type fieldSchema = ''float64'' \<and> convertToFloat64 g val = Inl e) \<or>
      (Type fieldSchema = ''time.Time'' \<and> convertToTime g val = Inl e) \<longrightarrow>
        GenericEntAdapter_GetPredicateForField g ga field op val = Inl e) \<and>
     (ToLower g op \<notin> inMemoryOperators (Type fieldSchema) \<and> field \<noteq> ''!'' \<longrightarrow>
        applyFilterRecursive g rec (tableSchema ga) [JStr field, JStr op, val] = Inr False)"
proof -
  note o = GetPredicateForField_other [OF assms]
  have ps: "(Type fieldSchema = ''string'' \<or> Type fieldSchema = ''text'') \<and> ToLower g op \<notin> dom stringOperators \<longrightarrow>
        GenericEntAdapter_GetPredicateForField g ga field op (JStr v) = Inl (UnsupportedOperator op (Type fieldSchema) field)"
    by (auto simp: o domIff)
  have pi: "Type fieldSchema = ''int'' \<and> ToLower g op \<notin> dom intOperators \<and> convertToInt g val = Inr i \<longrightarrow>
        GenericEntAdapter_GetPredicateForField g ga field op val = Inl (UnsupportedOperator op (Type fieldSchema) field)"
    by (auto simp: o domIff)
  have pf: "Type fieldSchema = ''float64'' \<and> ToLower g op \<notin> dom floatOperators \<and> convertToFloat64 g val = Inr f \<longrightarrow>
        GenericEntAdapter_GetPredicateForField g ga field op val = Inl (UnsupportedOperator op (Type fieldSchema) field)"
    by (auto simp: o domIff)
  have pb: "Type fieldSchema = ''bool'' \<and> ToLower g op \<notin> dom boolOperators \<longrightarrow>
        GenericEntAdapter_GetPredicateForField g ga field op (JBool b) = Inl (UnsupportedOperator op (Type fieldSchema) field)"
    by (auto simp: o domIff)
  have pb2: "Type fieldSchema = ''bool'' \<and> ToLower g op \<notin> dom boolOperators \<and> ParseBool (ToLower g s) = Some b \<longrightarrow>
        GenericEntAdapter_GetPredicateForField g ga field op (JStr s) = Inl (UnsupportedOperator op (Type fieldSchema) field)"
    by (auto simp: o domIff)
  have pt: "Type fieldSchema = ''time.Time'' \<and> ToLower g op \<notin> dom timeOperators \<and> convertToTime g val = Inr t \<longrightarrow>
        GenericEntAdapter_GetPredicateForField g ga field op val = Inl (UnsupportedOperator op (Type fieldSchema) field)"
    by (auto simp: o domIff)
  have pm: "ToLower g op \<notin> inMemoryOperators (Type fieldSchema) \<and> field \<noteq> ''!'' \<longrightarrow>
        applyFilterRecursive g rec (tableSchema ga) [JStr field, JStr op, val] = Inr False"
    using assms(1) by (simp add: leaf_in_memory evaluateCondition_unknown_operator split: option.splits)
  have pe: "(Type fieldSchema = ''int'' \<and> convertToInt g val = Inl e) \<or>
      (Type fieldSchema = ''float64'' \<and> convertToFloat64 g val = Inl e) \<or>
      (Type fieldSchema = ''time.Time'' \<and> convertToTime g val = Inl e) \<longrightarrow>
        GenericEntAdapter_GetPredicateForField g ga field op val = Inl e"
    by (auto simp: o)
  from ps pi pf pb pb2 pt pe pm show ?thesis
    by blast
qed

theorem C6_witness:
  "GenericEntAdapter_GetPredicateForField lib0 ga1 ''field_string'' ''>'' (JStr ''Foo'') =
     Inl (UnsupportedOperator ''>'' ''string'' ''field_string'') \<and>
   GenericEntAdapter_GetPredicateForField lib0 ga1 ''field_int'' ''contains'' (JNum 5) =
     Inl (UnsupportedOperator ''contains'' ''int'' ''field_int'') \<and>
   GenericEntAdapter_GetPredicateForField lib0 ga1 ''field_float'' ''contains'' (JNum 5) =
     Inl (UnsupportedOperator ''contains'' ''float64'' ''field_float'') \<and>
   GenericEntAdapter_GetPredicateForField lib0 ga1 ''field_bool'' ''>'' (JBool True) =
     Inl (UnsupportedOperator ''>'' ''bool'' ''field_bool'') \<and>
   GenericEntAdapter_GetPredicateForField lib0 ga1 ''field_bool'' ''>'' (JStr ''TRUE'') =
     Inl (UnsupportedOperator ''>'' ''bool'' ''field_bool'') \<and>
   GenericEntAdapter_GetPredicateForField lib0 ga1 ''field_time'' ''contains'' (JStr ''2024-01-01'') =
     Inl (UnsupportedOperator ''contains'' ''time.Time'' ''field_time'') \<and>
   GenericEntAdapter_GetPredicateForField lib0 ga1 ''field_int'' ''contains'' (JNum (10 ^ 19)) =
     Inl InvalidOperandType \<and>
   applyFilterRecursive lib0 [''field_string'' \<mapsto> JStr ''Foo''] (tableSchema ga1)
     [JStr ''field_string'', JStr ''>'', JStr ''Foo''] = Inr False"
proof -
  have fs: "FieldMap (tableSchema ga1) (ToLower lib0 ''field_string'') =
      Some \<lparr>Name = ''field_string'', Type = ''string''\<rparr>"
    by code_simp
  have fi: "FieldMap (tableSchema ga1) (ToLower lib0 ''field_int'') = Some \<lparr>Name = ''field_int'', Type = ''int''\<rparr>"
    by code_simp
  have ff: "FieldMap (tableSchema ga1) (ToLower lib0 ''field_float'') =
      Some \<lparr>Name = ''field_float'', Type = ''float64''\<rparr>"
    by code_simp
  have fb: "FieldMap (tableSchema ga1) (ToLower lib0 ''field_bool'') =
      Some \<lparr>Name = ''field_bool'', Type = ''bool''\<rparr>"
    by code_simp
  have ft: "FieldMap (tableSchema ga1) (ToLower lib0 ''field_time'') =
      Some \<lparr>Name = ''field_time'', Type = ''time.Time''\<rparr>"
    by code_simp
  have nb: "ToLower lib0 ''>'' \<noteq> ''between''" "ToLower lib0 ''contains'' \<noteq> ''between''"
    by (simp_all add: lower_char_def)
  have d: "ToLower lib0 ''>'' \<notin> dom stringOperators" "ToLower lib0 ''contains'' \<notin> dom intOperators"
    "ToLower lib0 ''contains'' \<notin> dom floatOperators" "ToLower lib0 ''>'' \<notin> dom boolOperators"
    "ToLower lib0 ''contains'' \<notin> dom timeOperators" "ToLower lib0 ''>'' \<notin> inMemoryOperators ''string''"
    by (simp_all add: lower_char_def domIff stringOperators_def intOperators_def floatOperators_def
          boolOperators_def timeOperators_def inMemoryOperators_def)
  have c: "convertToInt lib0 (JNum 5) = Inr 5" "convertToFloat64 lib0 (JNum 5) = Inr (F64 5)"
    "convertToTime lib0 (JStr ''2024-01-01'') = Inr 19723"
    "ParseBool (ToLower lib0 ''TRUE'') = Some True"
    by code_simp+
  have ce: "convertToInt lib0 (JNum (10 ^ 19)) = Inl InvalidOperandType"
    by (simp add: convertToInt_def go_int_def float64_of_int_def)
  note te = C6_unsupported_operator [OF fi nb(2), where val = "JNum (10 ^ 19)"
      and e = InvalidOperandType]
  note ts = C6_unsupported_operator [OF fs nb(1), where v = "''Foo''"
      and rec = "[''field_string'' \<mapsto> JStr ''Foo'']" and val = "JStr ''Foo''"]
  note ti = C6_unsupported_operator [OF fi nb(2), where val = "JNum 5" and i = 5]
  note tf = C6_unsupported_operator [OF ff nb(2), where val = "JNum 5" and f = "F64 5"]
  note tb = C6_unsupported_operator [OF fb nb(1), where b = True and s = "''TRUE''"]
  note tt = C6_unsupported_operator [OF ft nb(2), where val = "JStr ''2024-01-01''"
      and t = 19723]
  from ts ti tf tb tt te ce d c show ?thesis
    by simp
qed

text \<open>
  C6 as stated fails in the in-memory evaluator: \<open>>\<close> is no operator of a string field, and
  the leaf \<open>["name", ">", "Foo"]\<close> evaluates to false instead of failing.
\<close>

theorem C6_counterexample:
  "applyFilterRecursive lib0 row0 schema0 [JStr ''name'', JStr ''>'', JStr ''Foo''] = Inr False"
  by code_simp

section \<open>The two backends\<close>

text \<open>The generic adapter joins two predicates and negates one as ent does.\<close>

lemma generic_combinators [simp]:
  "GetAndPredicate (genericAdapter g ga) [Some c, Some p] = Some (sql_And [c, p])"
  "GetOrPredicate (genericAdapter g ga) [Some c, Some p] = Some (sql_Or [c, p])"
  "GetNotPredicate (genericAdapter g ga) (Some p) = Some (sql_Not p)"
  "GetPredicateForField (genericAdapter g ga) = GenericEntAdapter_GetPredicateForField g ga"
  by (simp_all add: genericAdapter_def GenericEntAdapter_GetAndPredicate_def
        GenericEntAdapter_GetOrPredicate_def GenericEntAdapter_GetNotPredicate_def)


text \<open>On definite values the three-valued connectives are the two-valued ones.\<close>

lemma and3_Some [simp]: "and3 (Some a) (Some b) = Some (a \<and> b)"
  by (cases a; cases b) simp_all

lemma or3_Some [simp]: "or3 (Some a) (Some b) = Some (a \<or> b)"
  by (cases a; cases b) simp_all





text \<open>
  The leaves. On a plain leaf the adapter returns a predicate whose reading by the engine
  is, on every record, the value \<open>evaluateCondition\<close> gives: one lemma per field type.
\<close>

lemma lower_char_idem [simp]: "lower_char (lower_char c) = lower_char c"
  by (simp add: lower_char_def)

lemma lower_char_comp [simp]: "lower_char \<circ> lower_char = lower_char"
  by (simp add: fun_eq_iff)














end
